theory Spec2Isabelle
  imports Main "HOL-Library.Word"
begin

section \<open>The record-replay mock server (src/index.js)\<close>

text \<open>
  A shallow embedding of the class \<open>MockServer\<close>. JavaScript strings are modelled as
  \<^typ>\<open>string\<close>, buffers and file contents as lists of bytes, plain objects as
  association lists in insertion order (the order \<open>JSON.stringify\<close> and the spread
  operator observe). Everything the file imports from Node or from a library (md5,
  JSON, URL, path, axios, socket.io-client) is a field of the record \<open>platform\<close>, so
  every theorem holds for whatever these functions compute. The filesystem, the
  console and the trace of upstream calls form the record \<open>world\<close>, which every
  effectful method takes and returns.
\<close>

subsection \<open>Values\<close>

type_synonym byte = "8 word"
type_synonym buffer = "byte list"

datatype json =
    JNull
  | JBool bool
  | JNum int
  | JStr string
  | JArr "json list"
  | JObj "(string \<times> json) list"

datatype error =
    TypeError string
  | URIError
  | SyntaxError
  | FsError string
  | NetworkError string

text \<open>The fields of a \<open>URL\<close> object that the code reads.\<close>

record url_object =
  url_href :: string
  url_host :: string
  url_pathname :: string
  url_origin :: string

text \<open>
  \<open>requestData\<close>. The HTTP path builds \<open>{host, pathname, href, method, headers, body}\<close>
  (lines 182-189), the socket path \<open>{host, href, data, pathname, method}\<close> (lines 56-62);
  the protocol-specific fields are the \<open>extra\<close> part.
\<close>

datatype extra_fields =
    HttpFields "(string \<times> string) list" json
  | SocketFields json

record request_data =
  host :: string
  pathname :: string
  href :: string
  rd_method :: string
  extra :: extra_fields

fun rd_headers :: "request_data \<Rightarrow> (string \<times> string) list option" where
  "rd_headers rd = (case extra rd of HttpFields h b \<Rightarrow> Some h | SocketFields d \<Rightarrow> None)"

fun rd_body :: "request_data \<Rightarrow> json option" where
  "rd_body rd = (case extra rd of HttpFields h b \<Rightarrow> Some b | SocketFields d \<Rightarrow> None)"

fun rd_data :: "request_data \<Rightarrow> json option" where
  "rd_data rd = (case extra rd of HttpFields h b \<Rightarrow> None | SocketFields d \<Rightarrow> Some d)"

definition headers_json :: "(string \<times> string) list \<Rightarrow> json" where
  "headers_json h = JObj (map (\<lambda>(k, v). (k, JStr v)) h)"

text \<open>The object handed to \<open>JSON.stringify\<close>, with its keys in the order of the literal.\<close>

fun requestData_json :: "request_data \<Rightarrow> json" where
  "requestData_json rd =
     (case extra rd of
        HttpFields h b \<Rightarrow>
          JObj [(''host'', JStr (host rd)), (''pathname'', JStr (pathname rd)),
                (''href'', JStr (href rd)), (''method'', JStr (rd_method rd)),
                (''headers'', headers_json h), (''body'', b)]
      | SocketFields d \<Rightarrow>
          JObj [(''host'', JStr (host rd)), (''href'', JStr (href rd)), (''data'', d),
                (''pathname'', JStr (pathname rd)), (''method'', JStr (rd_method rd))])"

record snapshot_data =
  data :: buffer
  info :: json
  requestData :: request_data

record snapshot_files =
  directory :: string
  info_file :: string
  data_file :: string

text \<open>The inbound \<open>req\<close> of the HTTP handlers: the fields \<open>recordReplayData\<close> destructures.\<close>

record http_request =
  req_url :: string
  req_method :: string
  req_headers :: "(string \<times> string) list"
  req_body :: json

text \<open>
  The object a route handler passes to \<open>serveHttpData\<close>: the request itself, or a
  spread copy of it, whose \<open>headers\<close> may be \<open>undefined\<close>.
\<close>

record request_object =
  obj_url :: string
  obj_method :: string
  obj_headers :: "(string \<times> string) list option"
  obj_body :: json

record axios_options =
  ax_url :: string
  ax_method :: string
  ax_headers :: "(string \<times> string) list option"
  ax_data :: "json option"
  ax_responseType :: string

subsection \<open>The platform\<close>

text \<open>
  \<open>axios\<close> and \<open>ioClient\<close> take the number of upstream calls made so far, so the
  origin may answer differently each time. \<open>axios\<close> yields the response's \<open>data\<close> and
  its other properties, or the error it rejects with; \<open>ioClient\<close> yields the
  acknowledged reply, \<open>None\<close> when no reply ever arrives. \<open>JSON_parse\<close> parses the
  text of a buffer, \<open>None\<close> when it throws; \<open>utf8\<close> is the encoding \<open>writeFileSync\<close>
  applies to a string and \<open>binary\<close> the one of \<open>Buffer.from(s, "binary")\<close>;
  \<open>decodeURIComponent\<close> and \<open>new_URL\<close> are \<open>None\<close> when they throw. \<open>port\<close> is
  \<open>process.env.PORT || 9001\<close> as it prints in a template string. \<open>matches_root\<close>
  is Express deciding, from the pathname it parses out of the request target, whether
  the route \<open>/\<close> matches. \<open>headers_own\<close> tells whether \<open>headers\<close> is an own
  property of the request object, which the spread operator copies (Node before 15.1),
  or an accessor of its prototype, which it does not copy.
\<close>

record platform =
  md5 :: "string \<Rightarrow> string"
  JSON_stringify :: "json \<Rightarrow> string"
  JSON_parse :: "buffer \<Rightarrow> json option"
  utf8 :: "string \<Rightarrow> buffer"
  binary :: "string \<Rightarrow> buffer"
  decodeURIComponent :: "string \<Rightarrow> string option"
  new_URL :: "string \<Rightarrow> url_object option"
  dirname :: "string \<Rightarrow> string"
  port :: string
  axios :: "nat \<Rightarrow> axios_options \<Rightarrow> error + buffer \<times> (string \<times> json) list"
  ioClient :: "nat \<Rightarrow> string \<Rightarrow> json option \<Rightarrow> json option"
  matches_root :: "string \<Rightarrow> bool"
  headers_own :: bool

subsection \<open>The world\<close>

datatype log_entry = Msg string | Err error

datatype upstream_call = HttpFetch request_data | SocketFetch request_data

text \<open>
  \<open>files\<close> maps a path to the content of the file there. \<open>faulty\<close> holds of the paths
  on which every filesystem operation fails (no permission, a full disk, a file where a
  directory is needed). \<open>console\<close> is what \<open>console.log\<close> printed, \<open>upstream_calls\<close> the
  live calls the two adapters made, oldest first. \<open>logAll\<close> is the constructor's flag.
\<close>

record world =
  files :: "string \<Rightarrow> buffer option"
  faulty :: "string \<Rightarrow> bool"
  console :: "log_entry list"
  upstream_calls :: "upstream_call list"
  logAll :: bool

definition SNAPSHOT_DIR :: string where
  "SNAPSHOT_DIR = ''__mock-server-snapshots__''"

text \<open>\<open>log(message, force)\<close>, lines 86-90.\<close>

definition log :: "world \<Rightarrow> log_entry \<Rightarrow> bool \<Rightarrow> world" where
  "log w message force =
     (if logAll w \<or> force then w\<lparr>console := console w @ [message]\<rparr> else w)"

subsection \<open>String methods\<close>

text \<open>\<open>s.indexOf(sub)\<close>: the first position where \<open>sub\<close> occurs, \<open>None\<close> for \<open>-1\<close>.\<close>

fun indexOf :: "string \<Rightarrow> string \<Rightarrow> nat option" where
  "indexOf [] sub = (if sub = [] then Some 0 else None)"
| "indexOf (c # cs) sub =
     (if take (length sub) (c # cs) = sub then Some 0
      else map_option Suc (indexOf cs sub))"

text \<open>\<open>s.slice(-1)\<close>: the last character, the empty string when \<open>s\<close> is empty.\<close>

definition slice_last :: "string \<Rightarrow> string" where
  "slice_last s = drop (length s - 1) s"

text \<open>\<open>s.substring(n)\<close>.\<close>

definition substring :: "string \<Rightarrow> nat \<Rightarrow> string" where
  "substring s n = drop n s"

text \<open>\<open>s.replace(pat, rep)\<close> with a string pattern: the first occurrence only.\<close>

definition replace :: "string \<Rightarrow> string \<Rightarrow> string \<Rightarrow> string" where
  "replace s pat rep =
     (case indexOf s pat of
        None \<Rightarrow> s
      | Some i \<Rightarrow> take i s @ rep @ drop (i + length pat) s)"

text \<open>
  \<open>s.split(sep)\<close> for a non-empty separator: the pieces between the occurrences of
  \<open>sep\<close>, scanning from the left. (With an empty separator JavaScript splits into single
  characters.)
\<close>

function split :: "string \<Rightarrow> string \<Rightarrow> string list" where
  "split s sep =
     (if sep = [] then map (\<lambda>c. [c]) s
      else case indexOf s sep of
             None \<Rightarrow> [s]
           | Some i \<Rightarrow> take i s # split (drop (i + length sep) s) sep)"
  by pat_completeness auto

lemma indexOf_le: "indexOf s sub = Some i \<Longrightarrow> i + length sub \<le> length s"
proof (induction s arbitrary: i)
  case Nil
  then show ?case by (simp split: if_splits)
next
  case (Cons c cs)
  show ?case
  proof (cases "take (length sub) (c # cs) = sub")
    case True
    then have "length (take (length sub) (c # cs)) = length sub"
      by simp
    then have "length sub \<le> length (c # cs)"
      by simp
    with True Cons.prems show ?thesis by simp
  next
    case False
    with Cons.prems obtain j where "indexOf cs sub = Some j" "i = Suc j"
      by auto
    with Cons.IH show ?thesis by auto
  qed
qed

termination split
proof (relation "measure (\<lambda>(s, sep). length s)")
  show "wf (measure (\<lambda>(s, sep). length s))" by simp
next
  fix s sep :: string and i
  assume "sep \<noteq> []" "indexOf s sep = Some i"
  then have "i + length sep \<le> length s" "0 < length sep"
    by (auto dest: indexOf_le)
  then have "length (drop (i + length sep) s) < length s"
    by (simp only: length_drop)
  then show "((drop (i + length sep) s, sep), (s, sep)) \<in> measure (\<lambda>(s, sep). length s)"
    by simp
qed

declare split.simps [simp del]

subsection \<open>getSnapshotFiles (lines 92-105)\<close>

definition uniqueReqId :: "platform \<Rightarrow> request_data \<Rightarrow> string" where
  "uniqueReqId P rd = md5 P (JSON_stringify P (requestData_json rd))"

definition snapshotBase :: "platform \<Rightarrow> request_data \<Rightarrow> string" where
  "snapshotBase P rd =
     SNAPSHOT_DIR @ ''/'' @ host rd
       @ (if slice_last (pathname rd) = ''/'' then pathname rd @ ''index'' else pathname rd)
       @ ''.'' @ rd_method rd @ ''.'' @ uniqueReqId P rd"

definition getSnapshotFiles :: "platform \<Rightarrow> request_data \<Rightarrow> snapshot_files" where
  "getSnapshotFiles P rd =
     \<lparr>directory = dirname P (snapshotBase P rd),
      info_file = snapshotBase P rd @ ''.json'',
      data_file = snapshotBase P rd @ ''.data''\<rparr>"

subsection \<open>Filesystem calls\<close>

definition readFileSync :: "world \<Rightarrow> string \<Rightarrow> error + buffer" where
  "readFileSync w p =
     (if faulty w p then Inl (FsError p)
      else case files w p of None \<Rightarrow> Inl (FsError p) | Some b \<Rightarrow> Inr b)"

text \<open>\<open>mkdirSync(d, {recursive: true})\<close>: directories are not tracked, only the failure is.\<close>

definition mkdirSync :: "world \<Rightarrow> string \<Rightarrow> error + world" where
  "mkdirSync w d = (if faulty w d then Inl (FsError d) else Inr w)"

definition writeFileSync :: "world \<Rightarrow> string \<Rightarrow> buffer \<Rightarrow> error + world" where
  "writeFileSync w p b =
     (if faulty w p then Inl (FsError p) else Inr (w\<lparr>files := (files w)(p \<mapsto> b)\<rparr>))"

text \<open>
  \<open>Buffer.from(data, "binary")\<close> where \<open>data\<close> is a buffer, as it is on every path of
  the code: a copy of the bytes, the encoding argument plays no role.
\<close>

definition Buffer_from :: "buffer \<Rightarrow> buffer" where
  "Buffer_from b = b"

subsection \<open>fetchFromSnapshot (lines 107-125)\<close>

text \<open>
  The whole body is inside \<open>try\<close>; the \<open>catch\<close> logs a warning and falls off the end,
  so the method returns \<open>undefined\<close>, here \<open>None\<close>.
\<close>

definition fetchFromSnapshot ::
  "platform \<Rightarrow> world \<Rightarrow> request_data \<Rightarrow> world \<times> snapshot_data option" where
  "fetchFromSnapshot P w rd =
     (let snapshotFiles = getSnapshotFiles P rd;
          caught = (log w (Msg (''[warning] no snapshot file found for path '' @ href rd
                                  @ '' fetching from remote'')) False, None)
      in case readFileSync w (info_file snapshotFiles) of
           Inl err \<Rightarrow> caught
         | Inr raw \<Rightarrow>
             (case JSON_parse P raw of
                None \<Rightarrow> caught
              | Some i \<Rightarrow>
                  (case readFileSync w (data_file snapshotFiles) of
                     Inl err \<Rightarrow> caught
                   | Inr d \<Rightarrow>
                       (log w (Msg (''[snapshot] fetched snapshot from ''
                                      @ info_file snapshotFiles)) False,
                        Some \<lparr>data = d, info = i, requestData = rd\<rparr>))))"

subsection \<open>saveSnapshot (lines 127-136)\<close>

text \<open>
  Nothing is caught here: the result carries the exception that escapes, if any, next
  to the world as the calls before it left it.
\<close>

definition saveSnapshot :: "platform \<Rightarrow> world \<Rightarrow> snapshot_data \<Rightarrow> world \<times> error option" where
  "saveSnapshot P w sd =
     (let snapshotFiles = getSnapshotFiles P (requestData sd)
      in case mkdirSync w (directory snapshotFiles) of
           Inl err \<Rightarrow> (w, Some err)
         | Inr w1 \<Rightarrow>
             (case writeFileSync w1 (info_file snapshotFiles)
                     (utf8 P (JSON_stringify P (info sd))) of
                Inl err \<Rightarrow> (w1, Some err)
              | Inr w2 \<Rightarrow>
                  (case writeFileSync w2 (data_file snapshotFiles) (Buffer_from (data sd)) of
                     Inl err \<Rightarrow> (w2, Some err)
                   | Inr w3 \<Rightarrow>
                       (log w3 (Msg (''[snapshot] saved snapshot to ''
                                       @ info_file snapshotFiles)) False,
                        None))))"

subsection \<open>fetchFromServer (lines 138-159)\<close>

text \<open>
  \<open>axios\<close>, the logging and \<open>saveSnapshot\<close> are all inside one \<open>try\<close>; the \<open>catch\<close>
  logs the error and the method returns \<open>undefined\<close>. \<open>delete info.request\<close> removes the
  key \<open>request\<close> from the rest object.
\<close>

definition axios_request :: "request_data \<Rightarrow> axios_options" where
  "axios_request rd =
     \<lparr>ax_url = href rd, ax_method = rd_method rd, ax_headers = rd_headers rd,
      ax_data = rd_body rd, ax_responseType = ''arraybuffer''\<rparr>"

definition fetchFromServer ::
  "platform \<Rightarrow> world \<Rightarrow> request_data \<Rightarrow> world \<times> snapshot_data option" where
  "fetchFromServer P w rd =
     (let options = axios_request rd;
          w0 = w\<lparr>upstream_calls := upstream_calls w @ [HttpFetch rd]\<rparr>
      in case axios P (length (upstream_calls w)) options of
           Inl err \<Rightarrow> (log w0 (Err err) False, None)
         | Inr (d, rest) \<Rightarrow>
             (let i = JObj (filter (\<lambda>(k, v). k \<noteq> ''request'') rest);
                  snapshotData = \<lparr>data = d, info = i, requestData = rd\<rparr>;
                  w1 = log w0 (Msg (''[http] fetched data from '' @ href rd)) False
              in case saveSnapshot P w1 snapshotData of
                   (w2, Some err) \<Rightarrow> (log w2 (Err err) False, None)
                 | (w2, None) \<Rightarrow> (w2, Some snapshotData)))"

subsection \<open>recordReplayData (lines 161-202)\<close>

definition allowedHeaders :: "string list" where
  "allowedHeaders = [''Content-Type'', ''user-agent'', ''Authorization'']"

text \<open>\<open>{...o, [k]: v}\<close>: an existing key keeps its place, a new key goes last.\<close>

fun obj_set :: "(string \<times> 'a) list \<Rightarrow> string \<Rightarrow> 'a \<Rightarrow> (string \<times> 'a) list" where
  "obj_set [] k v = [(k, v)]"
| "obj_set ((k', v') # kvs) k v =
     (if k' = k then (k, v) # kvs else (k', v') # obj_set kvs k v)"

text \<open>
  The \<open>reduce\<close> of lines 164-176. \<open>!fullHeaders[k]\<close> holds when the header is absent and
  when its value is the empty string.
\<close>

definition reduceHeaders :: "(string \<times> string) list \<Rightarrow> (string \<times> string) list" where
  "reduceHeaders fullHeaders =
     foldl (\<lambda>obj k. case map_of fullHeaders k of
                       None \<Rightarrow> obj
                     | Some v \<Rightarrow> if v = [] then obj else obj_set obj k v)
           [] allowedHeaders"

text \<open>\<open>new URL(decodeURIComponent(url))\<close>, lines 50 and 178.\<close>

definition parseTarget :: "platform \<Rightarrow> string \<Rightarrow> error + url_object" where
  "parseTarget P u =
     (case decodeURIComponent P u of
        None \<Rightarrow> Inl URIError
      | Some t \<Rightarrow>
          (case new_URL P t of
             None \<Rightarrow> Inl (TypeError ''Invalid URL'')
           | Some U \<Rightarrow> Inr U))"

text \<open>Lines 162-189: the canonical request, or the exception of line 178.\<close>

definition canonicalRequest :: "platform \<Rightarrow> http_request \<Rightarrow> error + request_data" where
  "canonicalRequest P req =
     (let headers = reduceHeaders (req_headers req)
      in case parseTarget P (req_url req) of
           Inl err \<Rightarrow> Inl err
         | Inr U \<Rightarrow>
             Inr \<lparr>host = url_host U, pathname = url_pathname U, href = url_href U,
                  rd_method = req_method req, extra = HttpFields headers (req_body req)\<rparr>)"

text \<open>
  Lines 191-201. \<open>fetchFromServer\<close> is called without \<open>await\<close>, so \<open>serverData\<close> is a
  promise, which is truthy: \<open>return serverData\<close> always runs and the caller's \<open>await\<close>
  gets what \<open>fetchFromServer\<close> resolves to, \<open>undefined\<close> included. \<open>Inl\<close> is a
  rejection.
\<close>

definition recordReplayData ::
  "platform \<Rightarrow> world \<Rightarrow> http_request \<Rightarrow> world \<times> (error + snapshot_data option)" where
  "recordReplayData P w req =
     (case canonicalRequest P req of
        Inl err \<Rightarrow> (w, Inl err)
      | Inr rd \<Rightarrow>
          (let w1 = log w (Msg (''[http] a client connected proxying '' @ href rd)) False
           in case fetchFromSnapshot P w1 rd of
                (w2, Some snapshotData) \<Rightarrow> (w2, Inr (Some snapshotData))
              | (w2, None) \<Rightarrow>
                  (case fetchFromServer P w2 rd of
                     (w3, serverData) \<Rightarrow> (w3, Inr serverData))))"

subsection \<open>fetchFromSocketIOServer and recordReplaySocketIO (lines 204-239)\<close>

text \<open>
  The promise resolves inside the acknowledgement callback, after \<open>saveSnapshot\<close>.
  \<open>None\<close> is a promise that never settles: no reply arrived, or \<open>saveSnapshot\<close> threw
  inside the callback before \<open>resolve\<close>.
\<close>

definition fetchFromSocketIOServer ::
  "platform \<Rightarrow> world \<Rightarrow> request_data \<Rightarrow> world \<times> snapshot_data option" where
  "fetchFromSocketIOServer P w rd =
     (let w0 = w\<lparr>upstream_calls := upstream_calls w @ [SocketFetch rd]\<rparr>
      in case ioClient P (length (upstream_calls w)) (href rd) (rd_data rd) of
           None \<Rightarrow> (w0, None)
         | Some response \<Rightarrow>
             (let w1 = log w0 (Msg ''[socket.io] got response from proxied server'') False;
                  snapshotData = \<lparr>data = binary P (JSON_stringify P response),
                                  info = requestData_json rd, requestData = rd\<rparr>
              in case saveSnapshot P w1 snapshotData of
                   (w2, Some err) \<Rightarrow> (w2, None)
                 | (w2, None) \<Rightarrow> (w2, Some snapshotData)))"

definition recordReplaySocketIO ::
  "platform \<Rightarrow> world \<Rightarrow> request_data \<Rightarrow> world \<times> snapshot_data option" where
  "recordReplaySocketIO P w rd =
     (case fetchFromSnapshot P w rd of
        (w1, Some snapshotData) \<Rightarrow> (w1, Some snapshotData)
      | (w1, None) \<Rightarrow> fetchFromSocketIOServer P w1 rd)"

subsection \<open>serveHttpData (lines 241-271)\<close>

text \<open>
  Lines 242-259 run before the \<open>try\<close>: what they throw rejects the promise of
  \<open>serveHttpData\<close>. Line 242, \<open>const { referer, host } = req.headers\<close>, throws when
  \<open>req.headers\<close> is \<open>undefined\<close>.
\<close>

definition destructure_headers :: "request_object \<Rightarrow> error + http_request" where
  "destructure_headers obj =
     (case obj_headers obj of
        None \<Rightarrow> Inl (TypeError ''Cannot destructure property referer of undefined'')
      | Some hs \<Rightarrow>
          Inr \<lparr>req_url = obj_url obj, req_method = obj_method obj, req_headers = hs,
               req_body = obj_body obj\<rparr>)"

text \<open>
  Lines 244-259. \<open>host.indexOf\<close> throws when there is no \<open>host\<close> header, and
  \<open>new URL\<close> when the text cut from the referer is no URL. The result is the value of
  \<open>req.url\<close> at line 261.
\<close>

definition resolveTarget :: "platform \<Rightarrow> http_request \<Rightarrow> error + string" where
  "resolveTarget P req =
     (let referer = map_of (req_headers req) ''referer'';
          host_header = map_of (req_headers req) ''host'';
          suffix = ''.localhost:'' @ port P;
          first =
            (if indexOf (req_url req) ''http'' = None then
               (case host_header of
                  None \<Rightarrow> Inl (TypeError ''Cannot read property indexOf of undefined'')
                | Some h \<Rightarrow>
                    if indexOf h suffix \<noteq> None
                    then Inr (''https://'' @ replace h suffix [] @ ''/'' @ req_url req)
                    else Inr (req_url req))
             else Inr (req_url req))
      in case first of
           Inl err \<Rightarrow> Inl err
         | Inr u \<Rightarrow>
             if indexOf u ''http'' = None then
               (case referer of
                  None \<Rightarrow> Inr u
                | Some r \<Rightarrow>
                    if r = [] then Inr u
                    else (case new_URL P (substring r (case indexOf r ''/http'' of
                                                         None \<Rightarrow> 0
                                                       | Some i \<Rightarrow> i + 1)) of
                            None \<Rightarrow> Inl (TypeError ''Invalid URL'')
                          | Some U \<Rightarrow> Inr (url_origin U @ ''/'' @ u)))
             else Inr u)"

text \<open>
  \<open>info.headers["content-type"]\<close>: a \<open>TypeError\<close> when \<open>info\<close> is \<open>null\<close> or
  \<open>info.headers\<close> is \<open>null\<close> or \<open>undefined\<close>, otherwise the property, which may be
  \<open>undefined\<close>.
\<close>

definition content_type :: "json \<Rightarrow> error + json option" where
  "content_type i =
     (case i of
        JObj kvs \<Rightarrow>
          (case map_of kvs ''headers'' of
             None \<Rightarrow> Inl (TypeError ''Cannot read property content-type of undefined'')
           | Some JNull \<Rightarrow> Inl (TypeError ''Cannot read property content-type of null'')
           | Some (JObj hs) \<Rightarrow> Inr (map_of hs ''content-type'')
           | Some other \<Rightarrow> Inr None)
      | JNull \<Rightarrow> Inl (TypeError ''Cannot read property headers of null'')
      | other \<Rightarrow> Inl (TypeError ''Cannot read property content-type of undefined''))"

text \<open>The calls made on \<open>res\<close>: \<open>res.set(name, value)\<close> and \<open>res.send(body)\<close>.\<close>

datatype res_call = Set string "json option" | Send "buffer option"

text \<open>
  \<open>Inl\<close> is an exception that leaves \<open>serveHttpData\<close>; \<open>Inr\<close> lists the calls made on
  \<open>res\<close>. Destructuring the \<open>undefined\<close> that \<open>recordReplayData\<close> resolves to when
  nothing was fetched throws inside the \<open>try\<close>, like every other failure there, and
  the \<open>catch\<close> answers \<open>res.send(null)\<close>.
\<close>

definition serveHttpData ::
  "platform \<Rightarrow> world \<Rightarrow> request_object \<Rightarrow> world \<times> (error + res_call list)" where
  "serveHttpData P w obj =
     (case destructure_headers obj of
        Inl err \<Rightarrow> (w, Inl err)
      | Inr req \<Rightarrow>
          (case resolveTarget P req of
             Inl err \<Rightarrow> (w, Inl err)
           | Inr u \<Rightarrow>
               (case recordReplayData P w (req\<lparr>req_url := u\<rparr>) of
                  (w1, Inl err) \<Rightarrow> (log w1 (Err err) False, Inr [Send None])
                | (w1, Inr None) \<Rightarrow>
                    (log w1 (Err (TypeError ''Cannot destructure property data of undefined''))
                       False,
                     Inr [Send None])
                | (w1, Inr (Some sd)) \<Rightarrow>
                    (case content_type (info sd) of
                       Inl err \<Rightarrow> (log w1 (Err err) False, Inr [Send None])
                     | Inr ct \<Rightarrow>
                         (log w1 (Msg ''[http] serving data to client'') False,
                          Inr [Set ''Content-Type'' ct,
                               Send (Some (Buffer_from (data sd)))])))))"

subsection \<open>The HTTP routes (lines 29-40)\<close>

text \<open>
  The request object itself, whose \<open>headers\<close> can be read, and the copy
  \<open>{ ...req, url }\<close> of line 39. The spread copies own properties only: \<open>method\<close>
  and \<open>body\<close> always, \<open>headers\<close> when the platform has it as one.
\<close>

definition own :: "http_request \<Rightarrow> request_object" where
  "own req =
     \<lparr>obj_url = req_url req, obj_method = req_method req,
      obj_headers = Some (req_headers req), obj_body = req_body req\<rparr>"

definition spread :: "platform \<Rightarrow> http_request \<Rightarrow> string \<Rightarrow> request_object" where
  "spread P req url =
     \<lparr>obj_url = url, obj_method = req_method req,
      obj_headers = (if headers_own P then Some (req_headers req) else None),
      obj_body = req_body req\<rparr>"

text \<open>
  The handler of \<open>app.all("/")\<close>: \<open>[, req.url] = req.url.split("/?url=")\<close> takes the
  second piece, which exists because the separator occurs. It passes the request
  itself on.
\<close>

definition route_root :: "http_request \<Rightarrow> request_object" where
  "route_root req =
     (if indexOf (req_url req) ''/?url='' \<noteq> None
      then (case split (req_url req) ''/?url='' of
              a # b # rest \<Rightarrow> own (req\<lparr>req_url := b\<rparr>)
            | _ \<Rightarrow> own req)
      else own req)"

text \<open>The handler of \<open>app.all("/*")\<close>.\<close>

definition route_star :: "platform \<Rightarrow> http_request \<Rightarrow> request_object" where
  "route_star P req = spread P req (substring (req_url req) 1)"

text \<open>
  Express tries the routes in the order they were registered. The first handler
  answers every request that \<open>/\<close> matches and never passes control on; the pattern
  \<open>/*\<close> matches every pathname, so every other request reaches the second.
\<close>

definition route :: "platform \<Rightarrow> http_request \<Rightarrow> request_object" where
  "route P req =
     (if matches_root P (req_url req) then route_root req else route_star P req)"


definition handle_http ::
  "platform \<Rightarrow> world \<Rightarrow> http_request \<Rightarrow> world \<times> (error + res_call list)" where
  "handle_http P w req = serveHttpData P w (route P req)"

subsection \<open>Header names as Node delivers them\<close>

text \<open>
  Node's HTTP parser stores every header of an inbound request under its name in
  lower case: \<open>req.headers\<close> of a request that carries \<open>wire\<close> is
  \<open>incoming_headers wire\<close>.
\<close>

definition toLowerCase :: "char \<Rightarrow> char" where
  "toLowerCase c =
     (let n = (of_char c :: nat) in if 65 \<le> n \<and> n \<le> 90 then char_of (n + 32) else c)"

definition incoming_headers :: "(string \<times> string) list \<Rightarrow> (string \<times> string) list" where
  "incoming_headers wire = map (\<lambda>(k, v). (map toLowerCase k, v)) wire"

subsection \<open>The socket.io connection handler (lines 42-68)\<close>

text \<open>
  A socket as the handler leaves it: whether \<open>socket.disconnect()\<close> was called, and the
  \<open>message\<close> listener with the \<open>url\<close>, \<open>href\<close> and \<open>host\<close> it closes over, if one
  was registered.
\<close>

record socket =
  disconnected :: bool
  message_listener :: "(string \<times> string \<times> string) option"

text \<open>\<open>undefined\<close> prints, and converts to a string, as the text \<open>undefined\<close>.\<close>

definition String_of :: "string option \<Rightarrow> string" where
  "String_of u = (case u of None \<Rightarrow> ''undefined'' | Some s \<Rightarrow> s)"

text \<open>
  There is no \<open>return\<close> after \<open>socket.disconnect()\<close>: line 50 runs in either case, and
  when it throws the listener of lines 53-67 is never registered. The third component
  is the exception that leaves the handler.
\<close>

definition on_connection ::
  "platform \<Rightarrow> world \<Rightarrow> string option \<Rightarrow> world \<times> socket \<times> error option" where
  "on_connection P w url =
     (let fresh = \<lparr>disconnected = False, message_listener = None\<rparr>;
          (w1, sock) =
            (if url = None \<or> url = Some []
             then (log w (Msg ''[socket.io] a client tried to connect with blank url...'') False,
                   fresh\<lparr>disconnected := True\<rparr>)
             else (w, fresh))
      in case parseTarget P (String_of url) of
           Inl err \<Rightarrow> (w1, sock, Some err)
         | Inr U \<Rightarrow>
             (log w1 (Msg (''[socket.io] a client connected proxying '' @ String_of url)) False,
              sock\<lparr>message_listener := Some (String_of url, url_href U, url_host U)\<rparr>,
              None))"

datatype reply = Reply json | NoReply | Raised error

text \<open>
  A \<open>message\<close> event on a socket: without a listener nothing runs. With one, lines
  54-66; \<open>NoReply\<close> when the promise of \<open>recordReplaySocketIO\<close> never settles,
  \<open>Raised\<close> when \<open>JSON.parse(response)\<close> throws.
\<close>

definition on_message :: "platform \<Rightarrow> world \<Rightarrow> socket \<Rightarrow> json \<Rightarrow> world \<times> reply" where
  "on_message P w sock d =
     (case message_listener sock of
        None \<Rightarrow> (w, NoReply)
      | Some (url, hr, hs) \<Rightarrow>
          (let w1 = log w (Msg (''[socket.io] received message from client proxying '' @ url))
                      False;
               rd = \<lparr>host = hs, pathname = ''/socket.io/'', href = hr,
                     rd_method = ''websocket'', extra = SocketFields d\<rparr>
           in case recordReplaySocketIO P w1 rd of
                (w2, None) \<Rightarrow> (w2, NoReply)
              | (w2, Some sd) \<Rightarrow>
                  (let w3 = log w2 (Msg (''[socket.io] sending response to client proxying ''
                                           @ url)) False
                   in case JSON_parse P (data sd) of
                        None \<Rightarrow> (w3, Raised SyntaxError)
                      | Some j \<Rightarrow> (w3, Reply j))))"

subsection \<open>Sequences of calls\<close>

text \<open>
  The reactor hands the core one call after the other: an HTTP request to
  \<open>recordReplayData\<close>, a socket message's request to \<open>recordReplaySocketIO\<close>.
\<close>

datatype call = HttpCall http_request | SocketCall request_data

fun call_key :: "platform \<Rightarrow> call \<Rightarrow> snapshot_files option" where
  "call_key P (HttpCall req) =
     (case canonicalRequest P req of
        Inl err \<Rightarrow> None
      | Inr rd \<Rightarrow> Some (getSnapshotFiles P rd))"
| "call_key P (SocketCall rd) = Some (getSnapshotFiles P rd)"

fun serve_call :: "platform \<Rightarrow> world \<Rightarrow> call \<Rightarrow> world \<times> snapshot_data option" where
  "serve_call P w (HttpCall req) =
     (case recordReplayData P w req of
        (w1, Inl err) \<Rightarrow> (w1, None)
      | (w1, Inr r) \<Rightarrow> (w1, r))"
| "serve_call P w (SocketCall rd) = recordReplaySocketIO P w rd"

fun serve_calls :: "platform \<Rightarrow> world \<Rightarrow> call list \<Rightarrow> world" where
  "serve_calls P w [] = w"
| "serve_calls P w (c # cs) = serve_calls P (fst (serve_call P w c)) cs"

subsection \<open>A sample platform\<close>

text \<open>
  A small platform on which the definitions can be evaluated. Its functions are
  simple stand-ins: the digest is a two-digit checksum of the length, the serializer
  writes compact JSON without escapes, the parser inverts the serializer on a table of
  known values, the URL constructor understands \<open>http://host/path\<close> and
  \<open>https://host/path\<close> only, and \<open>decodeURIComponent\<close> accepts the texts without a
  percent sign. The origin answers every HTTP call with the same four bytes, except
  that the host \<open>down.example.com\<close> cannot be reached.
\<close>

definition hex_digit :: "nat \<Rightarrow> char" where
  "hex_digit n = ''0123456789abcdef'' ! (n mod 16)"

definition sample_md5 :: "string \<Rightarrow> string" where
  "sample_md5 s = [hex_digit (length s div 16), hex_digit (length s)]"

fun dec :: "nat \<Rightarrow> string" where
  "dec n = (if n < 10 then [''0123456789'' ! n]
            else dec (n div 10) @ [''0123456789'' ! (n mod 10)])"

declare dec.simps [simp del]

definition quote :: "string \<Rightarrow> string" where
  "quote s = [CHR 0x22] @ s @ [CHR 0x22]"

fun join :: "string list \<Rightarrow> string" where
  "join [] = []"
| "join [s] = s"
| "join (s # t # ts) = s @ '','' @ join (t # ts)"

fun sample_stringify :: "json \<Rightarrow> string" where
  "sample_stringify JNull = ''null''"
| "sample_stringify (JBool b) = (if b then ''true'' else ''false'')"
| "sample_stringify (JNum n) = (if n < 0 then ''-'' @ dec (nat (- n)) else dec (nat n))"
| "sample_stringify (JStr s) = quote s"
| "sample_stringify (JArr xs) = ''['' @ join (map sample_stringify xs) @ '']''"
| "sample_stringify (JObj kvs) =
     ''{'' @ join (map (\<lambda>(k, v). quote k @ '':'' @ sample_stringify v) kvs) @ ''}''"

definition sample_bytes :: "string \<Rightarrow> buffer" where
  "sample_bytes s = map of_char s"

definition sample_payload :: buffer where
  "sample_payload = [0x00, 0xFF, 0x80, 0x41]"

definition sample_response :: "(string \<times> json) list" where
  "sample_response =
     [(''status'', JNum 200),
      (''headers'', JObj [(''content-type'', JStr ''application/octet-stream'')]),
      (''request'', JObj [])]"

definition sample_info :: json where
  "sample_info =
     JObj [(''status'', JNum 200),
           (''headers'', JObj [(''content-type'', JStr ''application/octet-stream'')])]"

definition sample_reply :: json where
  "sample_reply = JObj [(''result'', JArr [JNum 1, JNum 2])]"

definition sample_parse :: "buffer \<Rightarrow> json option" where
  "sample_parse b =
     List.find (\<lambda>j. sample_bytes (sample_stringify j) = b) [sample_info, sample_reply]"

definition is_delim :: "char \<Rightarrow> bool" where
  "is_delim c = (c = CHR ''/'' \<or> c = CHR ''?'' \<or> c = CHR ''#'')"

definition sample_URL :: "string \<Rightarrow> url_object option" where
  "sample_URL s =
     (let scheme = (if take 8 s = ''https://'' then ''https://''
                    else if take 7 s = ''http://'' then ''http://'' else []);
          rest = drop (length scheme) s;
          h = takeWhile (\<lambda>c. \<not> is_delim c) rest;
          tail = dropWhile (\<lambda>c. \<not> is_delim c) rest;
          path = takeWhile (\<lambda>c. c \<noteq> CHR ''?'' \<and> c \<noteq> CHR ''#'') tail;
          query = dropWhile (\<lambda>c. c \<noteq> CHR ''?'' \<and> c \<noteq> CHR ''#'') tail;
          p = (if path = [] then ''/'' else path)
      in if scheme = [] \<or> h = [] then None
         else Some \<lparr>url_href = scheme @ h @ p @ query, url_host = h,
                    url_pathname = p, url_origin = scheme @ h\<rparr>)"

definition sample_decode :: "string \<Rightarrow> string option" where
  "sample_decode s = (if CHR ''%'' \<in> set s then None else Some s)"

definition sample_axios ::
  "nat \<Rightarrow> axios_options \<Rightarrow> error + buffer \<times> (string \<times> json) list" where
  "sample_axios n options =
     (if take 24 (ax_url options) = ''http://down.example.com/''
      then Inl (NetworkError ''ECONNREFUSED'')
      else Inr (sample_payload, sample_response))"

text \<open>
  The pathname of a target in origin form is the text before \<open>?\<close>; that of a target
  in absolute form is the pathname of its URL.
\<close>

definition sample_matches_root :: "string \<Rightarrow> bool" where
  "sample_matches_root u =
     (if take 1 u = ''/'' then takeWhile (\<lambda>c. c \<noteq> CHR ''?'') u = ''/''
      else case sample_URL u of None \<Rightarrow> False | Some U \<Rightarrow> url_pathname U = ''/'')"

definition sample_platform :: platform where
  "sample_platform =
     \<lparr>md5 = sample_md5, JSON_stringify = sample_stringify, JSON_parse = sample_parse,
      utf8 = sample_bytes, binary = sample_bytes, decodeURIComponent = sample_decode,
      new_URL = sample_URL, dirname = (\<lambda>p. rev (drop 1 (dropWhile (\<lambda>c. c \<noteq> CHR ''/'') (rev p)))),
      port = ''9001'', axios = sample_axios,
      ioClient = (\<lambda>n h d. Some sample_reply),
      matches_root = sample_matches_root, headers_own = True\<rparr>"

text \<open>The same platform on a Node whose spread does not copy \<open>headers\<close>.\<close>

definition modern_platform :: platform where
  "modern_platform = sample_platform\<lparr>headers_own := False\<rparr>"

text \<open>An empty store that takes every write, and one on which every operation fails.\<close>

definition empty_world :: world where
  "empty_world =
     \<lparr>files = (\<lambda>p. None), faulty = (\<lambda>p. False), console = [], upstream_calls = [],
      logAll = True\<rparr>"

definition broken_world :: world where
  "broken_world = empty_world\<lparr>faulty := (\<lambda>p. True)\<rparr>"

definition sample_request :: http_request where
  "sample_request =
     \<lparr>req_url = ''http://api.example.com/v1/users'', req_method = ''GET'',
      req_headers = [(''host'', ''localhost:9001''), (''user-agent'', ''curl/8.0''),
                     (''Authorization'', ''Bearer t'')],
      req_body = JObj []\<rparr>"

text \<open>The same request with its headers inserted in another order, and a cookie.\<close>

definition reordered_request :: http_request where
  "reordered_request =
     sample_request\<lparr>req_headers :=
       [(''Authorization'', ''Bearer t''), (''cookie'', ''c=1''),
        (''host'', ''localhost:9001''), (''user-agent'', ''curl/8.0'')]\<rparr>"

definition sample_requestData :: request_data where
  "sample_requestData =
     \<lparr>host = ''api.example.com'', pathname = ''/v1/users'',
      href = ''http://api.example.com/v1/users'', rd_method = ''GET'',
      extra = HttpFields [(''user-agent'', ''curl/8.0''), (''Authorization'', ''Bearer t'')]
                (JObj [])\<rparr>"

text \<open>
  The request of \<open>sample_request\<close> for another path, and one for the host that is
  down.
\<close>

definition other_request :: http_request where
  "other_request = sample_request\<lparr>req_url := ''http://api.example.com/v1/other''\<rparr>"

definition down_request :: http_request where
  "down_request = sample_request\<lparr>req_url := ''http://down.example.com/x''\<rparr>"




text \<open>
  A call to \<open>/v1/x\<close> that nothing resolves, and calls to the path \<open>/\<close> whose
  referer holds no URL, and that carry no \<open>host\<close> header.
\<close>

definition unresolvable_request :: http_request where
  "unresolvable_request =
     sample_request\<lparr>req_url := ''/v1/x'', req_headers := [(''host'', ''localhost:9001'')]\<rparr>"

definition bad_referer_request :: http_request where
  "bad_referer_request =
     sample_request\<lparr>req_url := ''/'',
       req_headers := [(''host'', ''localhost:9001''), (''referer'', ''nonsense'')]\<rparr>"

definition no_host_request :: http_request where
  "no_host_request = sample_request\<lparr>req_url := ''/'', req_headers := []\<rparr>"

text \<open>The headers of the specification's example, as they travel and as they arrive.\<close>

definition wire_headers :: "(string \<times> string) list" where
  "wire_headers = [(''Cookie'', ''x''), (''Authorization'', ''y''), (''X-Trace'', ''z'')]"

definition sample_snapshot :: snapshot_data where
  "sample_snapshot =
     \<lparr>data = sample_payload, info = sample_info, requestData = sample_requestData\<rparr>"

text \<open>
  The world after the first call for \<open>sample_requestData\<close>, and the same world with
  the metadata artifact cut to its first ten bytes.
\<close>

definition recorded_world :: world where
  "recorded_world = fst (fetchFromServer sample_platform empty_world sample_requestData)"

definition truncated_world :: world where
  "truncated_world =
     recorded_world\<lparr>files := (files recorded_world)
       (info_file (getSnapshotFiles sample_platform sample_requestData) \<mapsto>
          take 10 (sample_bytes (sample_stringify sample_info)))\<rparr>"

subsection \<open>The store holds a snapshot\<close>

text \<open>
  Both artifacts of the key of \<open>rd\<close> can be read, and hold the metadata text \<open>meta\<close>
  and the bytes \<open>payload\<close>.
\<close>

definition snapshot_stored ::
  "platform \<Rightarrow> world \<Rightarrow> request_data \<Rightarrow> buffer \<Rightarrow> buffer \<Rightarrow> bool" where
  "snapshot_stored P w rd meta payload =
     (readFileSync w (info_file (getSnapshotFiles P rd)) = Inr meta
      \<and> readFileSync w (data_file (getSnapshotFiles P rd)) = Inr payload)"


section \<open>Properties\<close>

subsection \<open>Strings and paths\<close>

lemma slice_last_slash: "slice_last s = ''/'' \<longleftrightarrow> s \<noteq> [] \<and> last s = CHR ''/''"
  by (cases s rule: rev_cases) (simp_all add: slice_last_def)


lemma info_not_data:
  "info_file (getSnapshotFiles P rd) \<noteq> data_file (getSnapshotFiles P rd')"
proof
  assume "info_file (getSnapshotFiles P rd) = data_file (getSnapshotFiles P rd')"
  then have "last (snapshotBase P rd @ ''.json'') = last (snapshotBase P rd' @ ''.data'')"
    by (simp only: getSnapshotFiles_def snapshot_files.simps)
  then show False by simp
qed

lemma info_eq_iff_data_eq:
  "info_file (getSnapshotFiles P rd) = info_file (getSnapshotFiles P rd')
     \<longleftrightarrow> data_file (getSnapshotFiles P rd) = data_file (getSnapshotFiles P rd')"
  by (simp add: getSnapshotFiles_def)

subsection \<open>Logging leaves the store and the trace alone\<close>

lemma files_log [simp]: "files (log w m f) = files w"
  and faulty_log [simp]: "faulty (log w m f) = faulty w"
  and upstream_calls_log [simp]: "upstream_calls (log w m f) = upstream_calls w"
  and logAll_log [simp]: "logAll (log w m f) = logAll w"
  by (simp_all add: log_def)

lemma readFileSync_log [simp]: "readFileSync (log w m f) p = readFileSync w p"
  by (simp add: readFileSync_def)

lemma stored_log:
  "snapshot_stored P (log w m f) R meta payload = snapshot_stored P w R meta payload"
  by (simp add: snapshot_stored_def)

lemma stored_cong:
  assumes "files w' (info_file (getSnapshotFiles P R)) = files w (info_file (getSnapshotFiles P R))"
    and "files w' (data_file (getSnapshotFiles P R)) = files w (data_file (getSnapshotFiles P R))"
    and "faulty w' = faulty w"
    and "snapshot_stored P w R meta payload"
  shows "snapshot_stored P w' R meta payload"
  using assms by (auto simp: snapshot_stored_def readFileSync_def split: if_splits)

subsection \<open>The header allow-list\<close>

lemma reduceHeaders_unfold:
  "reduceHeaders h =
     (case map_of h ''Content-Type'' of
        None \<Rightarrow> [] | Some v \<Rightarrow> if v = [] then [] else [(''Content-Type'', v)])
     @ (case map_of h ''user-agent'' of
          None \<Rightarrow> [] | Some v \<Rightarrow> if v = [] then [] else [(''user-agent'', v)])
     @ (case map_of h ''Authorization'' of
          None \<Rightarrow> [] | Some v \<Rightarrow> if v = [] then [] else [(''Authorization'', v)])"
  by (simp add: reduceHeaders_def allowedHeaders_def split: option.splits)

lemma reduceHeaders_cong:
  "\<forall>k \<in> set allowedHeaders. map_of h1 k = map_of h2 k \<Longrightarrow>
     reduceHeaders h1 = reduceHeaders h2"
  by (simp add: reduceHeaders_unfold allowedHeaders_def)

lemma reduceHeaders_lookup:
  "map_of (reduceHeaders h) k =
     (if k \<in> {''Content-Type'', ''user-agent'', ''Authorization''} \<and> map_of h k \<noteq> Some []
      then map_of h k else None)"
  by (auto simp: reduceHeaders_unfold split: option.splits)

lemma reduceHeaders_distinct: "distinct (map fst (reduceHeaders h))"
  by (auto simp: reduceHeaders_unfold split: option.splits)

lemma canonical_sample: "canonicalRequest sample_platform sample_request = Inr sample_requestData"
  by code_simp

lemma canonical_reordered:
  "canonicalRequest sample_platform reordered_request = Inr sample_requestData"
  by code_simp

subsection \<open>What the store methods change\<close>

lemma saveSnapshot_success:
  assumes "saveSnapshot P w sd = (w', None)"
  shows "files w' = (files w)(info_file (getSnapshotFiles P (requestData sd)) \<mapsto>
                        utf8 P (JSON_stringify P (info sd)),
                      data_file (getSnapshotFiles P (requestData sd)) \<mapsto> data sd)"
    and "faulty w' = faulty w" and "upstream_calls w' = upstream_calls w"
    and "\<not> faulty w (info_file (getSnapshotFiles P (requestData sd)))"
    and "\<not> faulty w (data_file (getSnapshotFiles P (requestData sd)))"
  using assms
  by (auto simp: saveSnapshot_def Let_def mkdirSync_def writeFileSync_def Buffer_from_def
      split: if_splits)

lemma fetchFromSnapshot_frame:
  "files (fst (fetchFromSnapshot P w rd)) = files w"
  "faulty (fst (fetchFromSnapshot P w rd)) = faulty w"
  "upstream_calls (fst (fetchFromSnapshot P w rd)) = upstream_calls w"
  "logAll (fst (fetchFromSnapshot P w rd)) = logAll w"
  by (auto simp: fetchFromSnapshot_def Let_def split: sum.splits option.splits)

lemma fetchFromSnapshot_hit:
  assumes "readFileSync w (info_file (getSnapshotFiles P rd)) = Inr raw"
    and "JSON_parse P raw = Some j"
    and "readFileSync w (data_file (getSnapshotFiles P rd)) = Inr d"
  shows "snd (fetchFromSnapshot P w rd) = Some \<lparr>data = d, info = j, requestData = rd\<rparr>"
  using assms by (simp add: fetchFromSnapshot_def Let_def)

lemma fetchFromSnapshot_miss:
  assumes "isl (readFileSync w (info_file (getSnapshotFiles P rd)))
     \<or> (\<exists>raw. readFileSync w (info_file (getSnapshotFiles P rd)) = Inr raw
               \<and> JSON_parse P raw = None)
     \<or> isl (readFileSync w (data_file (getSnapshotFiles P rd)))"
  shows "fetchFromSnapshot P w rd =
     (log w (Msg (''[warning] no snapshot file found for path '' @ href rd
                    @ '' fetching from remote'')) False, None)"
  using assms by (auto simp: fetchFromSnapshot_def Let_def split: sum.splits option.splits)

lemma fetchFromSnapshot_stored:
  assumes "snapshot_stored P w R meta payload" and "JSON_parse P meta = Some j"
    and "info_file (getSnapshotFiles P rd) = info_file (getSnapshotFiles P R)"
  shows "fetchFromSnapshot P w rd =
     (log w (Msg (''[snapshot] fetched snapshot from '' @ info_file (getSnapshotFiles P rd)))
        False,
      Some \<lparr>data = payload, info = j, requestData = rd\<rparr>)"
proof -
  have "data_file (getSnapshotFiles P rd) = data_file (getSnapshotFiles P R)"
    using assms(3) by (simp only: info_eq_iff_data_eq)
  with assms show ?thesis
    by (simp add: snapshot_stored_def fetchFromSnapshot_def Let_def)
qed

subsection \<open>What the adapters change\<close>

lemma fetchFromServer_frame:
  "faulty (fst (fetchFromServer P w rd)) = faulty w"
  "logAll (fst (fetchFromServer P w rd)) = logAll w"
  "upstream_calls (fst (fetchFromServer P w rd)) = upstream_calls w @ [HttpFetch rd]"
  "p \<noteq> info_file (getSnapshotFiles P rd) \<Longrightarrow> p \<noteq> data_file (getSnapshotFiles P rd) \<Longrightarrow>
     files (fst (fetchFromServer P w rd)) p = files w p"
  by (auto simp: fetchFromServer_def Let_def saveSnapshot_def mkdirSync_def writeFileSync_def
      split: sum.splits prod.splits option.splits)

lemma fetchFromServer_success:
  assumes "fetchFromServer P w rd = (w', Some sd)"
  shows "requestData sd = rd"
    and "files w' (info_file (getSnapshotFiles P rd)) = Some (utf8 P (JSON_stringify P (info sd)))"
    and "files w' (data_file (getSnapshotFiles P rd)) = Some (data sd)"
    and "\<not> faulty w' (info_file (getSnapshotFiles P rd))"
    and "\<not> faulty w' (data_file (getSnapshotFiles P rd))"
  using assms
  by (auto simp: fetchFromServer_def Let_def saveSnapshot_def mkdirSync_def writeFileSync_def
      Buffer_from_def getSnapshotFiles_def
      split: sum.splits prod.splits option.splits if_splits)

lemma fetchFromSocketIOServer_frame:
  "faulty (fst (fetchFromSocketIOServer P w rd)) = faulty w"
  "logAll (fst (fetchFromSocketIOServer P w rd)) = logAll w"
  "upstream_calls (fst (fetchFromSocketIOServer P w rd)) = upstream_calls w @ [SocketFetch rd]"
  "p \<noteq> info_file (getSnapshotFiles P rd) \<Longrightarrow> p \<noteq> data_file (getSnapshotFiles P rd) \<Longrightarrow>
     files (fst (fetchFromSocketIOServer P w rd)) p = files w p"
  by (auto simp: fetchFromSocketIOServer_def Let_def saveSnapshot_def mkdirSync_def
      writeFileSync_def split: sum.splits prod.splits option.splits)

lemma fetchFromSocketIOServer_success:
  assumes "fetchFromSocketIOServer P w rd = (w', Some sd)"
  shows "requestData sd = rd"
    and "files w' (info_file (getSnapshotFiles P rd)) = Some (utf8 P (JSON_stringify P (info sd)))"
    and "files w' (data_file (getSnapshotFiles P rd)) = Some (data sd)"
    and "\<not> faulty w' (info_file (getSnapshotFiles P rd))"
    and "\<not> faulty w' (data_file (getSnapshotFiles P rd))"
  using assms
  by (auto simp: fetchFromSocketIOServer_def Let_def saveSnapshot_def mkdirSync_def
      writeFileSync_def Buffer_from_def getSnapshotFiles_def
      split: sum.splits prod.splits option.splits if_splits)

lemma stored_after_fetch:
  assumes "fetchFromServer P w0 R = (w1, Some sd)
           \<or> fetchFromSocketIOServer P w0 R = (w1, Some sd)"
  shows "snapshot_stored P w1 R (utf8 P (JSON_stringify P (info sd))) (data sd)"
  using assms fetchFromServer_success [of P w0 R w1 sd]
    fetchFromSocketIOServer_success [of P w0 R w1 sd]
  by (auto simp: snapshot_stored_def readFileSync_def)

text \<open>An adapter writes at the key of its own request only.\<close>

lemma stored_kept_by_miss:
  assumes st: "snapshot_stored P w R meta payload"
    and other: "info_file (getSnapshotFiles P rd) \<noteq> info_file (getSnapshotFiles P R)"
    and fr: "faulty w' = faulty w"
      "\<And>p. p \<noteq> info_file (getSnapshotFiles P rd) \<Longrightarrow>
            p \<noteq> data_file (getSnapshotFiles P rd) \<Longrightarrow> files w' p = files w p"
  shows "snapshot_stored P w' R meta payload"
proof -
  have d: "data_file (getSnapshotFiles P R) \<noteq> data_file (getSnapshotFiles P rd)"
    using other by (auto simp only: info_eq_iff_data_eq [symmetric])
  have i: "info_file (getSnapshotFiles P R) \<noteq> info_file (getSnapshotFiles P rd)"
    using other by auto
  have x: "data_file (getSnapshotFiles P R) \<noteq> info_file (getSnapshotFiles P rd)"
    using info_not_data [of P rd R] by auto
  have "files w' (info_file (getSnapshotFiles P R)) = files w (info_file (getSnapshotFiles P R))"
    using i info_not_data [of P R rd] by (rule fr(2))
  moreover
  have "files w' (data_file (getSnapshotFiles P R)) = files w (data_file (getSnapshotFiles P R))"
    using x d by (rule fr(2))
  ultimately show ?thesis
    using fr(1) st by (rule stored_cong)
qed

subsection \<open>A stored snapshot survives every later call\<close>

lemma recordReplaySocketIO_stored:
  assumes st: "snapshot_stored P w R meta payload" and pj: "JSON_parse P meta = Some j"
  shows "snapshot_stored P (fst (recordReplaySocketIO P w rd)) R meta payload"
proof (cases "info_file (getSnapshotFiles P rd) = info_file (getSnapshotFiles P R)")
  case True
  from fetchFromSnapshot_stored [OF st pj True] show ?thesis
    using st by (simp add: recordReplaySocketIO_def stored_log)
next
  case False
  obtain w1 r where f: "fetchFromSnapshot P w rd = (w1, r)"
    by (cases "fetchFromSnapshot P w rd")
  have w1: "snapshot_stored P w1 R meta payload"
    using f fetchFromSnapshot_frame(1,2) [of P w rd]
    by (intro stored_cong [OF _ _ _ st]) simp_all
  show ?thesis
  proof (cases r)
    case None
    have "snapshot_stored P (fst (fetchFromSocketIOServer P w1 rd)) R meta payload"
      using w1 False
      by (rule stored_kept_by_miss) (simp_all add: fetchFromSocketIOServer_frame)
    with f None show ?thesis by (simp add: recordReplaySocketIO_def)
  next
    case (Some a)
    with f w1 show ?thesis by (simp add: recordReplaySocketIO_def)
  qed
qed

lemma recordReplayData_stored:
  assumes st: "snapshot_stored P w R meta payload" and pj: "JSON_parse P meta = Some j"
  shows "snapshot_stored P (fst (recordReplayData P w req)) R meta payload"
proof (cases "canonicalRequest P req")
  case (Inl e)
  with st show ?thesis by (simp add: recordReplayData_def)
next
  case (Inr rd)
  let ?w0 = "log w (Msg (''[http] a client connected proxying '' @ href rd)) False"
  have st0: "snapshot_stored P ?w0 R meta payload"
    using st by (simp add: stored_log)
  show ?thesis
  proof (cases "info_file (getSnapshotFiles P rd) = info_file (getSnapshotFiles P R)")
    case True
    from fetchFromSnapshot_stored [OF st0 pj True] show ?thesis
      using st Inr by (simp add: recordReplayData_def stored_log)
  next
    case False
    obtain w1 r where f: "fetchFromSnapshot P ?w0 rd = (w1, r)"
      by (cases "fetchFromSnapshot P ?w0 rd")
    have w1: "snapshot_stored P w1 R meta payload"
      using f fetchFromSnapshot_frame(1,2) [of P ?w0 rd]
      by (intro stored_cong [OF _ _ _ st0]) simp_all
    show ?thesis
    proof (cases r)
      case None
      have "snapshot_stored P (fst (fetchFromServer P w1 rd)) R meta payload"
        using w1 False
        by (rule stored_kept_by_miss) (simp_all add: fetchFromServer_frame)
      with f None Inr show ?thesis
        by (cases "fetchFromServer P w1 rd") (simp add: recordReplayData_def)
    next
      case (Some a)
      with f w1 Inr show ?thesis by (simp add: recordReplayData_def)
    qed
  qed
qed

lemma fst_serve_call_http:
  "fst (serve_call P w (HttpCall req)) = fst (recordReplayData P w req)"
  by (cases "recordReplayData P w req") (auto split: sum.splits)

lemma serve_call_stored:
  assumes "snapshot_stored P w R meta payload" and "JSON_parse P meta = Some j"
  shows "snapshot_stored P (fst (serve_call P w c)) R meta payload"
proof (cases c)
  case (HttpCall req)
  with recordReplayData_stored [OF assms, of req] show ?thesis
    by (simp only: fst_serve_call_http)
next
  case (SocketCall rd)
  with recordReplaySocketIO_stored [OF assms, of rd] show ?thesis by simp
qed

lemma serve_calls_stored:
  assumes "snapshot_stored P w R meta payload" and "JSON_parse P meta = Some j"
  shows "snapshot_stored P (serve_calls P w cs) R meta payload"
  using assms(1)
proof (induction cs arbitrary: w)
  case Nil
  then show ?case by simp
next
  case (Cons c cs)
  from Cons.prems assms(2) have "snapshot_stored P (fst (serve_call P w c)) R meta payload"
    by (rule serve_call_stored)
  then show ?case by (simp add: Cons.IH)
qed

lemma serve_call_replay:
  assumes st: "snapshot_stored P w R meta payload" and pj: "JSON_parse P meta = Some j"
    and key: "call_key P c = Some (getSnapshotFiles P R)"
  shows "\<exists>rd. serve_call P w c =
           (log w (Msg (''[snapshot] fetched snapshot from ''
                          @ info_file (getSnapshotFiles P R))) False,
            Some \<lparr>data = payload, info = j, requestData = rd\<rparr>)
         \<or> serve_call P w c =
           (log (log w (Msg (''[http] a client connected proxying '' @ href rd)) False)
              (Msg (''[snapshot] fetched snapshot from ''
                          @ info_file (getSnapshotFiles P R))) False,
            Some \<lparr>data = payload, info = j, requestData = rd\<rparr>)"
proof (cases c)
  case (HttpCall req)
  with key obtain rd where c: "canonicalRequest P req = Inr rd"
    and k: "getSnapshotFiles P rd = getSnapshotFiles P R"
    by (auto split: sum.splits)
  let ?w0 = "log w (Msg (''[http] a client connected proxying '' @ href rd)) False"
  have "snapshot_stored P ?w0 R meta payload"
    using st by (simp add: stored_log)
  from fetchFromSnapshot_stored [OF this pj, of rd] k
  have "fetchFromSnapshot P ?w0 rd =
     (log ?w0 (Msg (''[snapshot] fetched snapshot from '' @ info_file (getSnapshotFiles P R)))
        False,
      Some \<lparr>data = payload, info = j, requestData = rd\<rparr>)"
    by simp
  then have "serve_call P w c =
     (log ?w0 (Msg (''[snapshot] fetched snapshot from '' @ info_file (getSnapshotFiles P R)))
        False,
      Some \<lparr>data = payload, info = j, requestData = rd\<rparr>)"
    using HttpCall c by (simp add: recordReplayData_def)
  then show ?thesis by blast
next
  case (SocketCall rd)
  with key have k: "getSnapshotFiles P rd = getSnapshotFiles P R" by simp
  from fetchFromSnapshot_stored [OF st pj, of rd] k
  have "fetchFromSnapshot P w rd =
     (log w (Msg (''[snapshot] fetched snapshot from '' @ info_file (getSnapshotFiles P R)))
        False,
      Some \<lparr>data = payload, info = j, requestData = rd\<rparr>)"
    by simp
  then have "serve_call P w c =
     (log w (Msg (''[snapshot] fetched snapshot from '' @ info_file (getSnapshotFiles P R)))
        False,
      Some \<lparr>data = payload, info = j, requestData = rd\<rparr>)"
    using SocketCall by (simp add: recordReplaySocketIO_def)
  then show ?thesis by blast
qed

subsection \<open>Target resolution, case by case\<close>

lemma destructure_own [simp]: "destructure_headers (own req) = Inr req"
  by (simp add: destructure_headers_def own_def)









subsection \<open>What the catch of serveHttpData covers\<close>

lemma serveHttpData_cases:
  assumes "resolveTarget P req = Inr u"
  shows "snd (recordReplayData P w (req\<lparr>req_url := u\<rparr>)) = Inl e \<Longrightarrow>
           snd (serveHttpData P w (own req)) = Inr [Send None]"
    and "snd (recordReplayData P w (req\<lparr>req_url := u\<rparr>)) = Inr None \<Longrightarrow>
           snd (serveHttpData P w (own req)) = Inr [Send None]"
  using assms by (auto simp: serveHttpData_def split: prod.splits sum.splits option.splits)

text \<open>
  Once target resolution has returned, nothing leaves \<open>serveHttpData\<close>: an upstream
  failure is logged by the adapter, and a call without data is answered by the one call
  \<open>res.send(null)\<close>.
\<close>

lemma fetchFromServer_transport_failure:
  "axios P (length (upstream_calls w)) (axios_request rd) = Inl err \<Longrightarrow>
     fetchFromServer P w rd =
       (log (w\<lparr>upstream_calls := upstream_calls w @ [HttpFetch rd]\<rparr>) (Err err) False, None)"
  by (simp add: fetchFromServer_def Let_def)

lemma no_data_is_empty_body:
  assumes r: "resolveTarget P req = Inr u"
    and n: "\<forall>sd. snd (recordReplayData P w (req\<lparr>req_url := u\<rparr>)) \<noteq> Inr (Some sd)"
  shows "snd (serveHttpData P w (own req)) = Inr [Send None]"
proof (cases "snd (recordReplayData P w (req\<lparr>req_url := u\<rparr>))")
  case (Inl e)
  with r show ?thesis by (rule serveHttpData_cases(1))
next
  case (Inr x)
  with n have "snd (recordReplayData P w (req\<lparr>req_url := u\<rparr>)) = Inr None"
    by (cases x) auto
  with r show ?thesis by (rule serveHttpData_cases(2))
qed

subsection \<open>Header names in lower case\<close>

lemma toLowerCase_not_upper:
  "\<not> (65 \<le> (of_char (toLowerCase c) :: nat) \<and> (of_char (toLowerCase c) :: nat) \<le> 90)"
  by (auto simp: toLowerCase_def Let_def)

lemma incoming_headers_key:
  assumes "map_of (incoming_headers wire) k = Some v" and "c \<in> set k"
  shows "\<not> (65 \<le> (of_char c :: nat) \<and> (of_char c :: nat) \<le> 90)"
proof -
  from assms(1) have "(k, v) \<in> set (incoming_headers wire)"
    by (rule map_of_SomeD)
  then obtain k' where "k = map toLowerCase k'"
    by (auto simp: incoming_headers_def)
  with assms(2) obtain c' where "c = toLowerCase c'" by auto
  then show ?thesis by (simp only: toLowerCase_not_upper not_False_eq_True)
qed

lemma incoming_headers_capitalised:
  "map_of (incoming_headers wire) ''Authorization'' = None"
  "map_of (incoming_headers wire) ''Content-Type'' = None"
proof -
  show "map_of (incoming_headers wire) ''Authorization'' = None"
  proof (cases "map_of (incoming_headers wire) ''Authorization''")
    case (Some v)
    from incoming_headers_key [OF this, of "CHR ''A''"] show ?thesis by simp
  qed simp
  show "map_of (incoming_headers wire) ''Content-Type'' = None"
  proof (cases "map_of (incoming_headers wire) ''Content-Type''")
    case (Some v)
    from incoming_headers_key [OF this, of "CHR ''C''"] show ?thesis by simp
  qed simp
qed

section \<open>The claims\<close>

subsection \<open>Determinism of the fingerprint\<close>

text \<open>
  Claim C1. Two canonical requests with identical host, pathname, href, method,
  allow-listed headers and body have the same fingerprint, also when the inbound
  headers were supplied in a different insertion order. The serialization that is
  hashed follows insertion order, but the headers of a canonical request are inserted
  by the \<open>reduce\<close> over the fixed allow-list, so the order in which the inbound request
  carries them never reaches the hash: the canonical requests themselves are equal,
  and so are the fingerprint and the paths of the snapshot.
\<close>

theorem fingerprint_deterministic:
  assumes "canonicalRequest P r1 = Inr rd1" and "canonicalRequest P r2 = Inr rd2"
    and "host rd1 = host rd2" and "pathname rd1 = pathname rd2" and "href rd1 = href rd2"
    and "rd_method rd1 = rd_method rd2"
    and "\<forall>k \<in> set allowedHeaders. map_of (req_headers r1) k = map_of (req_headers r2) k"
    and "req_body r1 = req_body r2"
  shows "rd1 = rd2 \<and> uniqueReqId P rd1 = uniqueReqId P rd2
         \<and> getSnapshotFiles P rd1 = getSnapshotFiles P rd2"
proof -
  have "reduceHeaders (req_headers r1) = reduceHeaders (req_headers r2)"
    using assms(7) by (rule reduceHeaders_cong)
  with assms have "rd1 = rd2"
    by (auto simp: canonicalRequest_def split: sum.splits)
  then show ?thesis by simp
qed

theorem fingerprint_deterministic_witness:
  "req_headers sample_request \<noteq> req_headers reordered_request
   \<and> (\<exists>rd1 rd2. canonicalRequest sample_platform sample_request = Inr rd1
        \<and> canonicalRequest sample_platform reordered_request = Inr rd2
        \<and> uniqueReqId sample_platform rd1 = uniqueReqId sample_platform rd2)"
proof -
  have "uniqueReqId sample_platform sample_requestData
          = uniqueReqId sample_platform sample_requestData"
    using fingerprint_deterministic [OF canonical_sample canonical_reordered]
    by (simp add: sample_request_def reordered_request_def allowedHeaders_def)
  moreover have "req_headers sample_request \<noteq> req_headers reordered_request"
    by (simp add: sample_request_def reordered_request_def)
  ultimately show ?thesis
    using canonical_sample canonical_reordered by blast
qed

subsection \<open>Replay skips the upstream\<close>

text \<open>
  Claim C2. After one successful fetch-and-save for a request \<open>R\<close>, by either
  adapter, let any sequence \<open>cs\<close> of further calls be served. Every later call \<open>c\<close>
  with the key of \<open>R\<close> (the path that holds the fingerprint) is then answered from
  the store with the payload that was fetched; it adds no upstream call and writes no
  file; and the two artifacts still hold what the first fetch saved. The metadata text
  is assumed to parse, as the output of \<open>JSON.stringify\<close> does, and only the server
  writes to the store.
\<close>

theorem replay_skips_upstream:
  assumes "fetchFromServer P w0 R = (w1, Some sd)
           \<or> fetchFromSocketIOServer P w0 R = (w1, Some sd)"
    and "JSON_parse P (utf8 P (JSON_stringify P (info sd))) = Some j"
    and "call_key P c = Some (getSnapshotFiles P R)"
    and "w = serve_calls P w1 cs"
  shows "(\<exists>rd. snd (serve_call P w c) = Some \<lparr>data = data sd, info = j, requestData = rd\<rparr>)
     \<and> upstream_calls (fst (serve_call P w c)) = upstream_calls w
     \<and> files (fst (serve_call P w c)) = files w
     \<and> files w (info_file (getSnapshotFiles P R)) = Some (utf8 P (JSON_stringify P (info sd)))
     \<and> files w (data_file (getSnapshotFiles P R)) = Some (data sd)"
proof -
  have "snapshot_stored P w1 R (utf8 P (JSON_stringify P (info sd))) (data sd)"
    using assms(1) by (rule stored_after_fetch)
  then have st: "snapshot_stored P w R (utf8 P (JSON_stringify P (info sd))) (data sd)"
    unfolding assms(4) using assms(2) by (rule serve_calls_stored)
  from serve_call_replay [OF st assms(2,3)] obtain rd w' where
    sc: "serve_call P w c = (w', Some \<lparr>data = data sd, info = j, requestData = rd\<rparr>)"
    and w': "upstream_calls w' = upstream_calls w" "files w' = files w"
    by auto
  have a: "\<exists>rd. snd (serve_call P w c) = Some \<lparr>data = data sd, info = j, requestData = rd\<rparr>"
    using sc by simp
  have b: "files w (info_file (getSnapshotFiles P R)) = Some (utf8 P (JSON_stringify P (info sd)))"
    using st by (simp add: snapshot_stored_def readFileSync_def split: if_splits option.splits)
  have c: "files w (data_file (getSnapshotFiles P R)) = Some (data sd)"
    using st by (simp add: snapshot_stored_def readFileSync_def split: if_splits option.splits)
  show ?thesis
    using a b c w' sc by simp
qed

theorem replay_skips_upstream_witness:
  "(\<exists>rd. snd (serve_call sample_platform
              (serve_calls sample_platform recorded_world
                 [HttpCall other_request, HttpCall down_request])
              (HttpCall reordered_request))
          = Some \<lparr>data = [0x00, 0xFF, 0x80, 0x41], info = sample_info, requestData = rd\<rparr>)
   \<and> upstream_calls (fst (serve_call sample_platform
              (serve_calls sample_platform recorded_world
                 [HttpCall other_request, HttpCall down_request])
              (HttpCall reordered_request)))
       = upstream_calls (serve_calls sample_platform recorded_world
                 [HttpCall other_request, HttpCall down_request])"
proof -
  have "snd (fetchFromServer sample_platform empty_world sample_requestData)
          = Some sample_snapshot"
    by code_simp
  then have a: "fetchFromServer sample_platform empty_world sample_requestData
                  = (recorded_world, Some sample_snapshot)"
    by (simp add: recorded_world_def prod_eq_iff)
  have b: "JSON_parse sample_platform
             (utf8 sample_platform (JSON_stringify sample_platform (info sample_snapshot)))
           = Some sample_info"
    by code_simp
  have c: "call_key sample_platform (HttpCall reordered_request)
             = Some (getSnapshotFiles sample_platform sample_requestData)"
    by (simp add: canonical_reordered)
  from replay_skips_upstream [OF disjI1 [OF a] b c refl,
      of "[HttpCall other_request, HttpCall down_request]"]
  show ?thesis
    by (simp add: sample_snapshot_def sample_payload_def)
qed

subsection \<open>A failed save\<close>

text \<open>
  Claim C3, as the code has it. When the upstream fetch succeeds and the snapshot
  save that follows fails with a filesystem error, the error is caught by the
  \<open>catch\<close> of \<open>fetchFromServer\<close> and logged, and \<open>fetchFromServer\<close> yields no result:
  the bytes that were fetched are not returned to the caller. The save is inside the
  same \<open>try\<close> as the fetch.
\<close>

theorem store_write_failure:
  assumes "axios P (length (upstream_calls w)) (axios_request rd) = Inr (d, rest)"
    and "faulty w (directory (getSnapshotFiles P rd))
         \<or> faulty w (info_file (getSnapshotFiles P rd))
         \<or> faulty w (data_file (getSnapshotFiles P rd))"
  shows "snd (fetchFromServer P w rd) = None
     \<and> (\<exists>p. console (fst (fetchFromServer P w rd)) =
            console w @ (if logAll w
                         then [Msg (''[http] fetched data from '' @ href rd), Err (FsError p)]
                         else []))"
  using assms
  by (auto simp: fetchFromServer_def Let_def saveSnapshot_def mkdirSync_def writeFileSync_def
      log_def)

theorem store_write_failure_witness:
  "snd (fetchFromServer sample_platform broken_world sample_requestData) = None
   \<and> console (fst (fetchFromServer sample_platform broken_world sample_requestData)) =
       [Msg ''[http] fetched data from http://api.example.com/v1/users'',
        Err (FsError ''__mock-server-snapshots__/api.example.com/v1'')]"
proof -
  have a: "axios sample_platform (length (upstream_calls broken_world))
             (axios_request sample_requestData) = Inr (sample_payload, sample_response)"
    by code_simp
  have b: "faulty broken_world (directory (getSnapshotFiles sample_platform sample_requestData))"
    by (simp add: broken_world_def)
  have c: "console (fst (fetchFromServer sample_platform broken_world sample_requestData)) =
       [Msg ''[http] fetched data from http://api.example.com/v1/users'',
        Err (FsError ''__mock-server-snapshots__/api.example.com/v1'')]"
    by code_simp
  from store_write_failure [OF a disjI1 [OF b]] c show ?thesis by simp
qed

text \<open>
  The claim as the specification words it fails: on a store that takes no write the
  origin answers with four bytes, and \<open>fetchFromServer\<close> returns nothing.
\<close>

theorem store_write_failure_counterexample:
  "axios sample_platform (length (upstream_calls broken_world)) (axios_request sample_requestData)
     = Inr (sample_payload, sample_response)
   \<and> snd (fetchFromServer sample_platform broken_world sample_requestData) = None"
  by code_simp

subsection \<open>The headers of a canonical request\<close>

text \<open>
  Claim C4. The headers of the canonical request should be exactly the inbound
  headers named \<open>Content-Type\<close>, \<open>User-Agent\<close> and \<open>Authorization\<close>. The code
  misses that: the \<open>reduce\<close> looks the headers up under the spellings
  \<open>Content-Type\<close>, \<open>user-agent\<close> and \<open>Authorization\<close>, and Node delivers every
  header name in lower case. So of the three only \<open>user-agent\<close> is ever copied, with
  a non-empty value; \<open>Authorization\<close> and \<open>Content-Type\<close> never are. The request of
  the specification's example, which carries \<open>Cookie: x\<close>, \<open>Authorization: y\<close> and
  \<open>X-Trace: z\<close>, arrives with the names \<open>cookie\<close>, \<open>authorization\<close> and \<open>x-trace\<close>
  and normalizes to no header at all, where the claim says \<open>Authorization: y\<close>.
\<close>

theorem allowlist_on_the_wire:
  "(\<forall>k. map_of (reduceHeaders (incoming_headers wire)) k =
          (if k = ''user-agent'' \<and> map_of (incoming_headers wire) k \<noteq> Some []
           then map_of (incoming_headers wire) k else None))
   \<and> incoming_headers wire_headers
       = [(''cookie'', ''x''), (''authorization'', ''y''), (''x-trace'', ''z'')]
   \<and> canonicalRequest sample_platform
        (sample_request\<lparr>req_headers := incoming_headers wire_headers\<rparr>)
       = Inr (sample_requestData\<lparr>extra := HttpFields [] (JObj [])\<rparr>)"
proof (intro conjI allI)
  fix k
  show "map_of (reduceHeaders (incoming_headers wire)) k =
          (if k = ''user-agent'' \<and> map_of (incoming_headers wire) k \<noteq> Some []
           then map_of (incoming_headers wire) k else None)"
    using incoming_headers_capitalised [of wire]
    by (auto simp: reduceHeaders_lookup)
next
  show "incoming_headers wire_headers
       = [(''cookie'', ''x''), (''authorization'', ''y''), (''x-trace'', ''z'')]"
    by code_simp
next
  show "canonicalRequest sample_platform
        (sample_request\<lparr>req_headers := incoming_headers wire_headers\<rparr>)
       = Inr (sample_requestData\<lparr>extra := HttpFields [] (JObj [])\<rparr>)"
    by code_simp
qed

subsection \<open>A failed load is a miss\<close>

text \<open>
  Claim C5. When reading the metadata artifact fails, or its text does not parse, or
  reading the payload artifact fails, \<open>fetchFromSnapshot\<close> reports a miss and raises
  nothing, and the orchestrator goes on to a live fetch: \<open>recordReplayData\<close> returns
  what \<open>fetchFromServer\<close> returns and the trace gains exactly that one upstream call;
  \<open>recordReplaySocketIO\<close> likewise returns what \<open>fetchFromSocketIOServer\<close> returns.
\<close>

theorem load_failure_is_miss:
  assumes "isl (readFileSync w (info_file (getSnapshotFiles P rd)))
     \<or> (\<exists>raw. readFileSync w (info_file (getSnapshotFiles P rd)) = Inr raw
               \<and> JSON_parse P raw = None)
     \<or> isl (readFileSync w (data_file (getSnapshotFiles P rd)))"
  shows "snd (fetchFromSnapshot P w rd) = None
     \<and> (canonicalRequest P req = Inr rd \<longrightarrow>
          recordReplayData P w req =
            (let w1 = log w (Msg (''[http] a client connected proxying '' @ href rd)) False;
                 w2 = log w1 (Msg (''[warning] no snapshot file found for path '' @ href rd
                                  @ '' fetching from remote'')) False
             in (fst (fetchFromServer P w2 rd), Inr (snd (fetchFromServer P w2 rd))))
          \<and> upstream_calls (fst (recordReplayData P w req)) = upstream_calls w @ [HttpFetch rd])
     \<and> recordReplaySocketIO P w rd =
          fetchFromSocketIOServer P
            (log w (Msg (''[warning] no snapshot file found for path '' @ href rd
                                  @ '' fetching from remote'')) False) rd"
proof -
  let ?warn = "Msg (''[warning] no snapshot file found for path '' @ href rd
                                  @ '' fetching from remote'')"
  have miss: "fetchFromSnapshot P w rd = (log w ?warn False, None)"
    using assms by (rule fetchFromSnapshot_miss)
  have miss': "fetchFromSnapshot P (log w m False) rd = (log (log w m False) ?warn False, None)"
    for m
    using assms by (intro fetchFromSnapshot_miss) simp
  have "canonicalRequest P req = Inr rd \<Longrightarrow>
          recordReplayData P w req =
            (let w1 = log w (Msg (''[http] a client connected proxying '' @ href rd)) False;
                 w2 = log w1 ?warn False
             in (fst (fetchFromServer P w2 rd), Inr (snd (fetchFromServer P w2 rd))))"
    by (simp add: recordReplayData_def Let_def miss' split: prod.splits)
  then show ?thesis
    using miss by (auto simp: recordReplaySocketIO_def Let_def fetchFromServer_frame)
qed

theorem load_failure_is_miss_witness:
  "snd (fetchFromSnapshot sample_platform truncated_world sample_requestData) = None
   \<and> upstream_calls (fst (recordReplayData sample_platform truncated_world sample_request))
       = upstream_calls truncated_world @ [HttpFetch sample_requestData]"
proof -
  have "readFileSync truncated_world
          (info_file (getSnapshotFiles sample_platform sample_requestData))
        = Inr (take 10 (sample_bytes (sample_stringify sample_info)))"
    by code_simp
  moreover
  have "JSON_parse sample_platform (take 10 (sample_bytes (sample_stringify sample_info))) = None"
    by code_simp
  ultimately have "\<exists>raw. readFileSync truncated_world
          (info_file (getSnapshotFiles sample_platform sample_requestData)) = Inr raw
        \<and> JSON_parse sample_platform raw = None"
    by blast
  from load_failure_is_miss [OF disjI2 [OF disjI1 [OF this]], of sample_request] canonical_sample
  show ?thesis by blast
qed

subsection \<open>The order of target resolution\<close>




subsection \<open>No response\<close>

text \<open>
  Claim C7. For an inbound HTTP call that can get no response, no exception should
  leave the core and the caller should receive an empty body. The \<open>catch\<close> of
  \<open>serveHttpData\<close> does that for every failure inside the \<open>try\<close>: a relative target
  that the URL constructor rejects at line 178 is answered by \<open>res.send(null)\<close>. But
  lines 242-259 run before the \<open>try\<close>, and the route handlers catch nothing. When
  the referer holds no URL, the same constructor throws at line 254; when the request
  has no \<open>host\<close> header, line 245 throws; when the spread copy of line 39 has no
  \<open>headers\<close>, line 242 throws. In each case the exception leaves \<open>serveHttpData\<close>
  and nothing is sent.
\<close>

theorem exception_before_try:
  "snd (handle_http sample_platform empty_world unresolvable_request) = Inr [Send None]
   \<and> snd (handle_http sample_platform empty_world bad_referer_request)
       = Inl (TypeError ''Invalid URL'')
   \<and> snd (handle_http sample_platform empty_world no_host_request)
       = Inl (TypeError ''Cannot read property indexOf of undefined'')
   \<and> snd (handle_http modern_platform empty_world (sample_request\<lparr>req_url := ''/v1/x''\<rparr>))
       = Inl (TypeError ''Cannot destructure property referer of undefined'')"
  by code_simp

subsection \<open>Binary round trip\<close>

text \<open>
  Claim C8. For every snapshot record, whatever bytes its payload holds, a
  \<open>saveSnapshot\<close> that succeeds followed by \<open>fetchFromSnapshot\<close> at the same key
  returns the very same bytes: the payload is written and read as a buffer and goes
  through no text encoding. The metadata text is assumed to parse, as the output of
  \<open>JSON.stringify\<close> does.
\<close>

theorem snapshot_roundtrip:
  assumes "saveSnapshot P w sd = (w', None)"
    and "JSON_parse P (utf8 P (JSON_stringify P (info sd))) = Some j"
    and "getSnapshotFiles P rd = getSnapshotFiles P (requestData sd)"
  shows "snd (fetchFromSnapshot P w' rd) = Some \<lparr>data = data sd, info = j, requestData = rd\<rparr>"
proof -
  note s = saveSnapshot_success [OF assms(1)]
  have ne: "info_file (getSnapshotFiles P rd) \<noteq> data_file (getSnapshotFiles P rd)"
    by (rule info_not_data)
  have a: "readFileSync w' (info_file (getSnapshotFiles P rd))
             = Inr (utf8 P (JSON_stringify P (info sd)))"
    using s ne assms(3) by (simp add: readFileSync_def)
  have b: "readFileSync w' (data_file (getSnapshotFiles P rd)) = Inr (data sd)"
    using s ne assms(3) by (simp add: readFileSync_def)
  show ?thesis
    using a assms(2) b by (rule fetchFromSnapshot_hit)
qed

theorem snapshot_roundtrip_witness:
  "snd (fetchFromSnapshot sample_platform
          (fst (saveSnapshot sample_platform empty_world sample_snapshot)) sample_requestData)
   = Some \<lparr>data = [0x00, 0xFF, 0x80, 0x41], info = sample_info,
            requestData = sample_requestData\<rparr>"
proof -
  have "snd (saveSnapshot sample_platform empty_world sample_snapshot) = None"
    by code_simp
  then have a: "saveSnapshot sample_platform empty_world sample_snapshot
                  = (fst (saveSnapshot sample_platform empty_world sample_snapshot), None)"
    by (simp add: prod_eq_iff)
  have b: "JSON_parse sample_platform
             (utf8 sample_platform (JSON_stringify sample_platform (info sample_snapshot)))
           = Some sample_info"
    by code_simp
  have c: "getSnapshotFiles sample_platform sample_requestData
             = getSnapshotFiles sample_platform (requestData sample_snapshot)"
    by (simp add: sample_snapshot_def)
  from snapshot_roundtrip [OF a b c] show ?thesis
    by (simp add: sample_snapshot_def sample_payload_def)
qed

subsection \<open>The location of a snapshot\<close>

text \<open>
  Claim C9. For every host, pathname, method and fingerprint the snapshot lies at
  \<open>{root}/{host}{pathname}.{method}.{fingerprint}\<close>, the root being
  \<open>__mock-server-snapshots__\<close> and \<open>index\<close> being appended to a pathname that ends in
  \<open>/\<close>; the metadata artifact is that path with \<open>.json\<close>, the payload artifact the
  same path with \<open>.data\<close>, and the two differ.
\<close>

theorem snapshot_location:
  "info_file (getSnapshotFiles P rd) =
     ''__mock-server-snapshots__/'' @ host rd @ pathname rd
       @ (if pathname rd \<noteq> [] \<and> last (pathname rd) = CHR ''/'' then ''index'' else [])
       @ ''.'' @ rd_method rd @ ''.'' @ uniqueReqId P rd @ ''.json''
   \<and> data_file (getSnapshotFiles P rd) =
     ''__mock-server-snapshots__/'' @ host rd @ pathname rd
       @ (if pathname rd \<noteq> [] \<and> last (pathname rd) = CHR ''/'' then ''index'' else [])
       @ ''.'' @ rd_method rd @ ''.'' @ uniqueReqId P rd @ ''.data''
   \<and> info_file (getSnapshotFiles P rd) \<noteq> data_file (getSnapshotFiles P rd)"
  by (simp add: getSnapshotFiles_def snapshotBase_def SNAPSHOT_DIR_def slice_last_slash)

theorem snapshot_location_witness:
  "info_file (getSnapshotFiles sample_platform sample_requestData) =
     ''__mock-server-snapshots__/api.example.com/v1/users.GET.b2.json''
   \<and> data_file (getSnapshotFiles sample_platform
        (sample_requestData\<lparr>pathname := ''/v1/'', href := ''http://api.example.com/v1/''\<rparr>)) =
     ''__mock-server-snapshots__/api.example.com/v1/index.GET.a8.data''"
  using snapshot_location [of sample_platform sample_requestData]
    snapshot_location [of sample_platform
        "sample_requestData\<lparr>pathname := ''/v1/'', href := ''http://api.example.com/v1/''\<rparr>"]
  by (simp add: sample_requestData_def uniqueReqId_def sample_platform_def sample_md5_def
      hex_digit_def quote_def headers_json_def)

subsection \<open>A connection without a target\<close>

text \<open>
  Claim C10. When the \<open>url\<close> connection parameter is missing or blank, the handler
  disconnects the socket as its first action. Nothing returns after that, so line 50
  runs on the text \<open>undefined\<close> or on the empty text; the URL constructor rejects
  both, the handler throws, and the \<open>message\<close> listener is never registered: no
  message on that connection is processed.
\<close>

theorem blank_url_rejected:
  assumes "url = None \<or> url = Some []"
  shows "disconnected (fst (snd (on_connection P w url)))
     \<and> (isl (parseTarget P (String_of url)) \<longrightarrow>
          message_listener (fst (snd (on_connection P w url))) = None
          \<and> (\<forall>w' d. on_message P w' (fst (snd (on_connection P w url))) d = (w', NoReply)))"
  using assms
  by (auto simp: on_connection_def on_message_def Let_def split: sum.splits)

theorem blank_url_rejected_witness:
  "disconnected (fst (snd (on_connection sample_platform empty_world None)))
   \<and> on_message sample_platform empty_world
        (fst (snd (on_connection sample_platform empty_world None))) (JStr ''ping'')
      = (empty_world, NoReply)
   \<and> disconnected (fst (snd (on_connection sample_platform empty_world (Some []))))"
proof -
  have "isl (parseTarget sample_platform (String_of None))" by code_simp
  with blank_url_rejected [of None sample_platform empty_world]
    blank_url_rejected [of "Some []" sample_platform empty_world]
  show ?thesis by simp
qed

end
